theory Spec2Isabelle
  imports Main "HOL-Library.Sublist"
begin

section \<open>Electrons\<close>

text \<open>
  Modelled from the spec: the declaration of the \<^verbatim>\<open>Electron\<close> struct is not among the
  sources (only \<^verbatim>\<open>electron_test.go\<close>, which builds its values, is). The fields are
  those of the data model: \<^verbatim>\<open>SenderID\<close>, \<^verbatim>\<open>ID\<close>, \<^verbatim>\<open>AtomID\<close>, the
  byte payload, the optional timeout in nanoseconds and the \<^verbatim>\<open>CopyState\<close> hint.
  A Go \<^verbatim>\<open>[]byte\<close> is a \<^typ>\<open>char list\<close>: a HOL character is one byte.
\<close>

record Electron =
  SenderID :: string
  ID :: string
  AtomID :: string
  Payload :: string
  Timeout :: "int option"
  CopyState :: bool

text \<open>
  Modelled from the spec: \<^verbatim>\<open>Electron.Validate\<close> is not among the sources; the test
  table \<^verbatim>\<open>TestElectron_Validate\<close> calls it through \<^verbatim>\<open>validator.Valid\<close>.
  The spec: an Electron is valid iff \<^verbatim>\<open>SenderID\<close>, \<^verbatim>\<open>ID\<close> and
  \<^verbatim>\<open>AtomID\<close> are all non-empty.
\<close>

definition Validate :: "Electron \<Rightarrow> bool" where
  "Validate e = (SenderID e \<noteq> [] \<and> ID e \<noteq> [] \<and> AtomID e \<noteq> [])"

text \<open>The zero value \<^verbatim>\<open>Electron{}\<close> of the test file.\<close>

definition zeroElectron :: Electron where
  "zeroElectron = \<lparr>SenderID = [], ID = [], AtomID = [], Payload = [], Timeout = None,
     CopyState = False\<rparr>"

text \<open>
  \<^verbatim>\<open>noopelectron\<close> of the test file: its declaration is not among the sources, its
  expected encoding \<^verbatim>\<open>{"senderid":"empty","id":"empty","atomid":"empty"}\<close> is.
\<close>

definition noopelectron :: Electron where
  "noopelectron = zeroElectron\<lparr>SenderID := ''empty'', ID := ''empty'', AtomID := ''empty''\<rparr>"

text \<open>
  The rows of \<^verbatim>\<open>TestElectron_Validate\<close>: each electron with the validity the test
  expects of it.
\<close>

definition validate_tests :: "(Electron \<times> bool) list" where
  "validate_tests =
    [(noopelectron, True),
     (zeroElectron, False),
     (zeroElectron\<lparr>SenderID := ''test''\<rparr>, False),
     (zeroElectron\<lparr>AtomID := ''test''\<rparr>, False),
     (zeroElectron\<lparr>ID := ''test''\<rparr>, False),
     (zeroElectron\<lparr>SenderID := ''test'', AtomID := ''test''\<rparr>, False),
     (zeroElectron\<lparr>ID := ''test'', SenderID := ''test''\<rparr>, False),
     (zeroElectron\<lparr>ID := ''test'', AtomID := ''test''\<rparr>, False)]"

section \<open>The wire format of electrons\<close>

text \<open>
  Modelled from the spec: \<^verbatim>\<open>Electron.MarshalJSON\<close> and
  \<^verbatim>\<open>Electron.UnmarshalJSON\<close> are not among the sources (only their tests are). The
  wire format is a JSON object with the fields \<^verbatim>\<open>senderid\<close>, \<^verbatim>\<open>id\<close>,
  \<^verbatim>\<open>atomid\<close> and the optional \<^verbatim>\<open>payload\<close>, \<^verbatim>\<open>timeout\<close> (nanoseconds) and
  \<^verbatim>\<open>copystate\<close>; the optional \<^verbatim>\<open>resp\<close> has no counterpart among the fields of
  an electron and is left out. Reading and writing the object itself is the work of
  Go's \<^verbatim>\<open>encoding/json\<close>, so the model keeps the object as its fields, the payload
  as the raw JSON text of its value. The payload serializer is modelled in full: on
  emit, the payload is written as its raw bytes verbatim when they are valid JSON, and
  base64-encoded otherwise; on decode, a base64 string is decoded to raw bytes and any
  other JSON value is kept as its raw JSON encoding.
\<close>

record wire =
  senderid :: string
  id_w :: string
  atomid :: string
  timeout :: "int option"
  copystate :: bool
  payload :: "string option"

subsection \<open>Base64\<close>

text \<open>
  The standard alphabet with padding (RFC 4648). A byte is a character; \<open>byte\<close> is its
  number.
\<close>

definition byte :: "char \<Rightarrow> nat" where
  "byte c = of_char c"

definition enc :: "nat \<Rightarrow> char" where
  "enc n =
    (if n < 26 then char_of (65 + n)
     else if n < 52 then char_of (71 + n)
     else if n < 62 then char_of (n - 4)
     else if n = 62 then CHR ''+''
     else CHR ''/'')"

definition dec :: "char \<Rightarrow> nat option" where
  "dec c =
    (if 65 \<le> byte c \<and> byte c \<le> 90 then Some (byte c - 65)
     else if 97 \<le> byte c \<and> byte c \<le> 122 then Some (byte c - 71)
     else if 48 \<le> byte c \<and> byte c \<le> 57 then Some (byte c + 4)
     else if c = CHR ''+'' then Some 62
     else if c = CHR ''/'' then Some 63
     else None)"

fun b64encode :: "string \<Rightarrow> string" where
  "b64encode [] = []"
| "b64encode [a] =
    [enc (byte a div 4), enc (byte a mod 4 * 16), CHR ''='', CHR ''='']"
| "b64encode [a, b] =
    [enc (byte a div 4), enc (byte a mod 4 * 16 + byte b div 16), enc (byte b mod 16 * 4),
     CHR ''='']"
| "b64encode (a # b # c # rest) =
    [enc (byte a div 4), enc (byte a mod 4 * 16 + byte b div 16),
     enc (byte b mod 16 * 4 + byte c div 64), enc (byte c mod 64)] @ b64encode rest"

fun b64decode :: "string \<Rightarrow> string option" where
  "b64decode [] = Some []"
| "b64decode (w # x # y # z # rest) =
    (if rest = [] \<and> z = CHR ''=''
     then (if y = CHR ''=''
           then (case (dec w, dec x) of
                   (Some a, Some b) \<Rightarrow> Some [char_of (a * 4 + b div 16)]
                 | _ \<Rightarrow> None)
           else (case (dec w, dec x, dec y) of
                   (Some a, Some b, Some c) \<Rightarrow>
                     Some [char_of (a * 4 + b div 16), char_of (b mod 16 * 16 + c div 4)]
                 | _ \<Rightarrow> None))
     else (case (dec w, dec x, dec y, dec z) of
             (Some a, Some b, Some c, Some d) \<Rightarrow>
               (case b64decode rest of
                  Some bs \<Rightarrow>
                    Some (char_of (a * 4 + b div 16) # char_of (b mod 16 * 16 + c div 4)
                            # char_of (c mod 4 * 64 + d) # bs)
                | None \<Rightarrow> None)
           | _ \<Rightarrow> None))"
| "b64decode (w # rest) = None"


subsection \<open>Valid JSON\<close>

text \<open>
  Whether a byte sequence is one JSON value (RFC 8259), read byte by byte: the mode
  says what may come next, the stack which arrays and objects are open. In a string,
  \<open>Str True\<close> is the key of an object member and \<open>Str False\<close> a value.
\<close>

datatype numst = NMinus | NZero | NInt | NDot | NFrac | NExp | NExpSign | NExpDig

datatype mode =
    Val | ValOrClose | KeyOrClose | Key | Colon | After
  | Str bool | Esc bool | Hex bool nat | Lit string | InNum numst

datatype frame = Arr | Obj

definition ws :: "char \<Rightarrow> bool" where
  "ws c = (byte c = 32 \<or> byte c = 9 \<or> byte c = 10 \<or> byte c = 13)"

definition digit :: "char \<Rightarrow> bool" where
  "digit c = (48 \<le> byte c \<and> byte c \<le> 57)"

definition hexdigit :: "char \<Rightarrow> bool" where
  "hexdigit c = (digit c \<or> (97 \<le> byte c \<and> byte c \<le> 102) \<or> (65 \<le> byte c \<and> byte c \<le> 70))"

definition begin_value :: "char \<Rightarrow> frame list \<Rightarrow> (mode \<times> frame list) option" where
  "begin_value c st =
    (if c = CHR ''{'' then Some (KeyOrClose, Obj # st)
     else if c = CHR ''['' then Some (ValOrClose, Arr # st)
     else if c = CHR 0x22 then Some (Str False, st)
     else if c = CHR ''-'' then Some (InNum NMinus, st)
     else if c = CHR ''0'' then Some (InNum NZero, st)
     else if digit c then Some (InNum NInt, st)
     else if c = CHR ''t'' then Some (Lit ''rue'', st)
     else if c = CHR ''f'' then Some (Lit ''alse'', st)
     else if c = CHR ''n'' then Some (Lit ''ull'', st)
     else None)"

definition end_value :: "char \<Rightarrow> frame list \<Rightarrow> (mode \<times> frame list) option" where
  "end_value c st =
    (if ws c then Some (After, st)
     else if c = CHR '','' then
       (case st of [] \<Rightarrow> None | Arr # r \<Rightarrow> Some (Val, st) | Obj # r \<Rightarrow> Some (Key, st))
     else if c = CHR '']'' then
       (case st of Arr # r \<Rightarrow> Some (After, r) | _ \<Rightarrow> None)
     else if c = CHR ''}'' then
       (case st of Obj # r \<Rightarrow> Some (After, r) | _ \<Rightarrow> None)
     else None)"

definition exponent :: "char \<Rightarrow> bool" where
  "exponent c = (c = CHR ''e'' \<or> c = CHR ''E'')"

fun num_step :: "numst \<Rightarrow> char \<Rightarrow> frame list \<Rightarrow> (mode \<times> frame list) option" where
  "num_step NMinus c st =
    (if c = CHR ''0'' then Some (InNum NZero, st)
     else if digit c then Some (InNum NInt, st) else None)"
| "num_step NZero c st =
    (if c = CHR ''.'' then Some (InNum NDot, st)
     else if exponent c then Some (InNum NExp, st) else end_value c st)"
| "num_step NInt c st =
    (if digit c then Some (InNum NInt, st)
     else if c = CHR ''.'' then Some (InNum NDot, st)
     else if exponent c then Some (InNum NExp, st) else end_value c st)"
| "num_step NDot c st = (if digit c then Some (InNum NFrac, st) else None)"
| "num_step NFrac c st =
    (if digit c then Some (InNum NFrac, st)
     else if exponent c then Some (InNum NExp, st) else end_value c st)"
| "num_step NExp c st =
    (if c = CHR ''+'' \<or> c = CHR ''-'' then Some (InNum NExpSign, st)
     else if digit c then Some (InNum NExpDig, st) else None)"
| "num_step NExpSign c st = (if digit c then Some (InNum NExpDig, st) else None)"
| "num_step NExpDig c st = (if digit c then Some (InNum NExpDig, st) else end_value c st)"

fun step :: "mode \<Rightarrow> char \<Rightarrow> frame list \<Rightarrow> (mode \<times> frame list) option" where
  "step Val c st = (if ws c then Some (Val, st) else begin_value c st)"
| "step ValOrClose c st =
    (if ws c then Some (ValOrClose, st)
     else if c = CHR '']'' then Some (After, tl st)
     else begin_value c st)"
| "step KeyOrClose c st =
    (if ws c then Some (KeyOrClose, st)
     else if c = CHR ''}'' then Some (After, tl st)
     else if c = CHR 0x22 then Some (Str True, st)
     else None)"
| "step Key c st =
    (if ws c then Some (Key, st)
     else if c = CHR 0x22 then Some (Str True, st)
     else None)"
| "step Colon c st =
    (if ws c then Some (Colon, st)
     else if c = CHR '':'' then Some (Val, st)
     else None)"
| "step After c st = end_value c st"
| "step (Str k) c st =
    (if c = CHR 0x22 then Some (if k then Colon else After, st)
     else if c = CHR 0x5C then Some (Esc k, st)
     else if byte c < 32 then None
     else Some (Str k, st))"
| "step (Esc k) c st =
    (if c \<in> set [CHR 0x22, CHR 0x5C, CHR ''/'', CHR ''b'', CHR ''f'', CHR ''n'', CHR ''r'',
                  CHR ''t'']
     then Some (Str k, st)
     else if c = CHR ''u'' then Some (Hex k 4, st)
     else None)"
| "step (Hex k n) c st =
    (if hexdigit c then Some (if n \<le> 1 then Str k else Hex k (n - 1), st) else None)"
| "step (Lit []) c st = None"
| "step (Lit (x # xs)) c st =
    (if c = x then Some (if xs = [] then After else Lit xs, st) else None)"
| "step (InNum s) c st = num_step s c st"

fun scan :: "mode \<Rightarrow> frame list \<Rightarrow> string \<Rightarrow> (mode \<times> frame list) option" where
  "scan m st [] = Some (m, st)"
| "scan m st (c # cs) =
    (case step m c st of None \<Rightarrow> None | Some (m', st') \<Rightarrow> scan m' st' cs)"

definition value_done :: "mode \<Rightarrow> bool" where
  "value_done m = (m = After \<or> m = InNum NZero \<or> m = InNum NInt \<or> m = InNum NFrac \<or> m = InNum NExpDig)"

definition json_valid :: "string \<Rightarrow> bool" where
  "json_valid s = (case scan Val [] s of None \<Rightarrow> False | Some (m, st) \<Rightarrow> st = [] \<and> value_done m)"

subsection \<open>The payload serializer\<close>

definition quote :: "string \<Rightarrow> string" where
  "quote s = CHR 0x22 # s @ [CHR 0x22]"

definition unquote :: "string \<Rightarrow> string option" where
  "unquote r =
    (if 2 \<le> length r \<and> hd r = CHR 0x22 \<and> last r = CHR 0x22 then Some (butlast (tl r))
     else None)"

text \<open>The bytes of a base64 string: a JSON string whose content is base64.\<close>

definition base64_string :: "string \<Rightarrow> string option" where
  "base64_string r = (case unquote r of None \<Rightarrow> None | Some s \<Rightarrow> b64decode s)"

definition encode_payload :: "string \<Rightarrow> string option" where
  "encode_payload p =
    (if p = [] then None
     else if json_valid p then Some p
     else Some (quote (b64encode p)))"

definition decode_payload :: "string option \<Rightarrow> string" where
  "decode_payload r =
    (case r of
       None \<Rightarrow> []
     | Some raw \<Rightarrow> (case base64_string raw of Some bytes \<Rightarrow> bytes | None \<Rightarrow> raw))"

definition MarshalJSON :: "Electron \<Rightarrow> wire" where
  "MarshalJSON e =
    \<lparr>senderid = SenderID e, id_w = ID e, atomid = AtomID e, timeout = Timeout e,
     copystate = CopyState e, payload = encode_payload (Payload e)\<rparr>"

definition UnmarshalJSON :: "wire \<Rightarrow> Electron" where
  "UnmarshalJSON w =
    \<lparr>SenderID = senderid w, ID = id_w w, AtomID = atomid w,
     Payload = decode_payload (payload w), Timeout = timeout w, CopyState = copystate w\<rparr>"

text \<open>The values of the test file: \<^verbatim>\<open>pay\<close>, \<^verbatim>\<open>pay64Encoded\<close> and \<^verbatim>\<open>nonb64\<close>.\<close>

definition pay :: string where
  "pay = ''{\"test\":\"test\"}''"

definition pay64Encoded :: string where
  "pay64Encoded = ''eyJ0ZXN0IjoidGVzdCJ9''"

definition nonb64 :: Electron where
  "nonb64 = noopelectron\<lparr>Payload := pay\<rparr>"

definition noop_wire :: wire where
  "noop_wire = \<lparr>senderid = ''empty'', id_w = ''empty'', atomid = ''empty'', timeout = None,
     copystate = False, payload = None\<rparr>"

section \<open>Identity and validation\<close>

text \<open>
  Modelled from the spec: the helper \<^verbatim>\<open>ID\<close> and the validator
  (\<^verbatim>\<open>github.com/devnw/validator\<close>) are not among the sources. A value that is
  registered, or handed to the event bus, is described by what the two read of it: the
  fully-qualified name of its type, the result of its explicit \<^verbatim>\<open>ID()\<close> capability
  when it has one, and the result of its validator capability when it has one.
\<close>

record ident =
  typeName :: string
  explicitID :: "string option"
  validator :: "bool option"

text \<open>
  Identity: for a value carrying an explicit \<^verbatim>\<open>ID()\<close> capability, that value;
  otherwise the fully-qualified type name of the value. (The field \<^verbatim>\<open>ID\<close> of an
  electron has the name already, so the function is \<open>ID_of\<close>.)
\<close>

definition ID_of :: "ident \<Rightarrow> string" where
  "ID_of v = (case explicitID v of Some i \<Rightarrow> i | None \<Rightarrow> typeName v)"

text \<open>
  Validation: a value is valid iff it implements the validator capability and that
  capability returns true, or it implements no such capability.
\<close>

definition Valid :: "ident \<Rightarrow> bool" where
  "Valid v = (case validator v of Some b \<Rightarrow> b | None \<Rightarrow> True)"

section \<open>Events, errors and completion records\<close>

text \<open>
  Modelled from the spec: the declarations of \<^verbatim>\<open>Event\<close>, \<^verbatim>\<open>Error\<close>,
  \<^verbatim>\<open>Properties\<close> and \<^verbatim>\<open>instance\<close> are not among the sources. The fields are
  those of the data model, which are also the ones the struct literals of the
  dispatcher's code write. A field that a struct literal leaves out has Go's zero value:
  the empty string, or nil.
\<close>

record Event =
  Message :: string
  ElectronID :: string
  AtomID_E :: string
  ConductorID :: string

definition Event0 :: Event where
  "Event0 = \<lparr>Message = [], ElectronID = [], AtomID_E = [], ConductorID = []\<rparr>"

text \<open>
  Values of Go's \<^verbatim>\<open>error\<close> interface: \<^verbatim>\<open>Error{Event: ev, Internal: e}\<close>, what
  the helper \<^verbatim>\<open>simple(msg, e)\<close> returns (its body is not among the sources), and an
  error made outside the dispatcher, such as the one a conductor's \<^verbatim>\<open>Complete\<close>
  returns. A nil error is \<open>None\<close>.
\<close>

datatype err =
    Error Event "err option"
  | simple string "err option"
  | External string

record Properties =
  ElectronID_P :: string
  AtomID_P :: string
  Start :: int
  End :: int
  Error_P :: "err option"
  Result :: "string option"

type_synonym Conductor = ident

text \<open>
  An instance pairs an electron with the conductor it came from (an interface value,
  nil when \<open>None\<close>).
\<close>

record inst =
  electron :: Electron
  conductor :: "Conductor option"

definition inst0 :: inst where
  "inst0 = \<lparr>electron = zeroElectron, conductor = None\<rparr>"

text \<open>What is handed to the event bus.\<close>

datatype emitted =
    Ev Event
  | Er err
  | makeEvent string

section \<open>Atoms and the store\<close>

text \<open>
  An atom is an interface value. The adapter builds a new one by reflection, so the
  model keeps what reflection reads: a struct type (its name and the zero value of each
  field), and whether the atom is a pointer to such a struct on the heap or the struct
  itself.
\<close>

datatype fieldval = IntV int | StrV string | BoolV bool

record structT =
  structName :: string
  structZero :: "(string \<times> fieldval) list"

datatype goval =
    PtrV structT nat
  | StructV structT "(string \<times> fieldval) list"

record Atom =
  atomIdent :: ident
  atomVal :: goval

text \<open>
  The heap: the struct stored at each allocated address, and the next free address.
  \<^verbatim>\<open>reflect.New(t)\<close> takes the next address and stores the zero value of \<open>t\<close> there;
  it returns the address.
\<close>

record store =
  cells :: "nat \<rightharpoonup> (string \<times> fieldval) list"
  nextAddr :: nat

definition reflect_New :: "store \<Rightarrow> structT \<Rightarrow> nat \<times> store" where
  "reflect_New s t =
    (nextAddr s,
     s\<lparr>cells := (cells s)(nextAddr s \<mapsto> structZero t), nextAddr := Suc (nextAddr s)\<rparr>)"

text \<open>
  \<^verbatim>\<open>reflect.TypeOf(atom).Elem()\<close>: the struct type a pointer points to; on a value
  that is no pointer, \<^verbatim>\<open>Elem\<close> panics.
\<close>

datatype panic = ElemOfNonPointer

fun TypeOf_Elem :: "goval \<Rightarrow> panic + structT" where
  "TypeOf_Elem (PtrV t p) = Inr t"
| "TypeOf_Elem (StructV t fs) = Inl ElemOfNonPointer"

text \<open>A store is well formed when every allocated address is below the next free one.\<close>

definition store_ok :: "store \<Rightarrow> bool" where
  "store_ok s = (dom (cells s) \<subseteq> {..<nextAddr s})"

section \<open>The dispatcher\<close>

text \<open>
  The fields of \<^verbatim>\<open>atomizer\<close> that the modelled code reads or writes: the routing
  table \<^verbatim>\<open>atoms\<close> from atom identifiers to channels, the events channel (nil when
  \<open>None\<close>) and the registrations channel. A channel is the number \<^verbatim>\<open>make\<close> gave
  it; \<open>chans\<close> counts the channels made so far.
\<close>

record atomizer =
  atoms :: "string \<rightharpoonup> nat"
  events :: "nat option"
  registrations :: "nat option"
  chans :: nat

text \<open>
  What lies outside the dispatcher: the clock (\<open>now k\<close> is what the \<open>k\<close>-th call of
  \<^verbatim>\<open>time.Now\<close> returns), what a conductor's \<^verbatim>\<open>Complete\<close> returns, what the
  missing helper \<^verbatim>\<open>ID\<close> returns on a nil interface, and what the executor leaves
  in the fields of the atom it was handed.
\<close>

record env =
  now :: "nat \<Rightarrow> int"
  complete :: "Conductor \<Rightarrow> Properties \<Rightarrow> err option"
  nilID :: string
  process :: "inst \<Rightarrow> (string \<times> fieldval) list \<Rightarrow> (string \<times> fieldval) list"

definition ID_opt :: "env \<Rightarrow> ident option \<Rightarrow> string" where
  "ID_opt w v = (case v of None \<Rightarrow> nilID w | Some x \<Rightarrow> ID_of x)"

text \<open>
  The effects of the dispatcher's code, in the order the code performs them: a call of
  \<^verbatim>\<open>a.event\<close>, a call of \<^verbatim>\<open>conductor.Complete\<close>, the start of a goroutine
  (\<^verbatim>\<open>go a.conduct\<close>, \<^verbatim>\<open>go a._split\<close>), an electron taken from a conductor's
  receiver, a send on the intake channel \<^verbatim>\<open>a.electrons\<close>, a send on an atom's
  channel, and a call of \<^verbatim>\<open>a.exec\<close>.
\<close>

datatype effect =
    Emit emitted
  | Complete Conductor Properties
  | GoConduct Conductor
  | GoSplit Atom nat
  | Pulled Electron
  | Intake inst
  | Push nat inst
  | Exec inst goval

text \<open>
  A \<^verbatim>\<open>select\<close> over \<^verbatim>\<open>ctx.Done()\<close> and a receive ends in one of three ways; a
  \<^verbatim>\<open>select\<close> over \<^verbatim>\<open>ctx.Done()\<close> and a send in one of two. Which one is the
  scheduler's choice, so it is an input of the model.
\<close>

datatype 'a recv = RecvDone | RecvClosed | Recv 'a

datatype send = SendDone | SendOk

datatype ctl = Continue | Return

text \<open>
  A loop is run on a finite schedule of such outcomes. It has returned, or it is still
  waiting in its \<^verbatim>\<open>select\<close> when the schedule ends.
\<close>

datatype status = Returned | Waiting

subsection \<open>Registration\<close>

datatype registration = RegConductor Conductor | RegAtom Atom | RegOther ident

fun reg_ident :: "registration \<Rightarrow> ident" where
  "reg_ident (RegConductor c) = c"
| "reg_ident (RegAtom t) = atomIdent t"
| "reg_ident (RegOther v) = v"

definition receiveConductor ::
  "atomizer \<Rightarrow> Conductor \<Rightarrow> err option \<times> atomizer \<times> effect list" where
  "receiveConductor a c =
    (if \<not> Valid c
     then (Some (Error (Event0\<lparr>Message := ''invalid conductor'', ConductorID := ID_of c\<rparr>) None),
           a, [])
     else (None, a, [GoConduct c]))"

definition split :: "atomizer \<Rightarrow> Atom \<Rightarrow> nat \<times> atomizer \<times> effect list" where
  "split a t = (chans a, a\<lparr>chans := Suc (chans a)\<rparr>, [GoSplit t (chans a)])"

definition receiveAtom ::
  "atomizer \<Rightarrow> Atom \<Rightarrow> err option \<times> atomizer \<times> effect list" where
  "receiveAtom a t =
    (if \<not> Valid (atomIdent t)
     then (Some (Error (Event0\<lparr>Message := ''invalid atom'', AtomID_E := ID_of (atomIdent t)\<rparr>)
                  None),
           a, [])
     else (case split a t of
             (ch, a', effs) \<Rightarrow>
               (None,
                a'\<lparr>atoms := (atoms a')(ID_of (atomIdent t) \<mapsto> ch)\<rparr>,
                effs @ [Emit (Ev (Event0\<lparr>Message := ''registered electron channel'',
                                          AtomID_E := ID_of (atomIdent t)\<rparr>))])))"

definition register :: "atomizer \<Rightarrow> registration \<Rightarrow> atomizer \<times> effect list" where
  "register a input =
    (let pre = (if \<not> Valid (reg_ident input)
                then [Emit (Er (simple (''invalid registration '' @ ID_of (reg_ident input))
                                  None))]
                else [])
     in case input of
          RegConductor v \<Rightarrow>
            (case receiveConductor a v of
               (e, a', effs) \<Rightarrow>
                 (a', pre @ effs @
                   (if e = None
                    then [Emit (Ev (Event0\<lparr>Message := ''conductor received'',
                                            ConductorID := ID_of v\<rparr>))]
                    else [])))
        | RegAtom v \<Rightarrow>
            (case receiveAtom a v of
               (e, a', effs) \<Rightarrow>
                 (a', pre @ effs @
                   (if e = None
                    then [Emit (Ev (Event0\<lparr>Message := ''atom received'',
                                            AtomID_E := ID_of (atomIdent v)\<rparr>))]
                    else [])))
        | RegOther v \<Rightarrow>
            (a, pre @ [Emit (Er (simple (''unknown registration type '' @ ID_of v) None))]))"

text \<open>
  One turn of the loop of \<^verbatim>\<open>receive\<close>, on the outcome of its \<^verbatim>\<open>select\<close>, and
  the loop itself. \<^verbatim>\<open>receive\<close> returns at once when the registrations channel is nil.
\<close>

fun receive_body :: "atomizer \<Rightarrow> registration recv \<Rightarrow> atomizer \<times> effect list \<times> ctl" where
  "receive_body a RecvDone = (a, [], Return)"
| "receive_body a RecvClosed = (a, [Emit (Er (simple ''registrations closed'' None))], Return)"
| "receive_body a (Recv r) =
    (case register a r of
       (a', effs) \<Rightarrow>
         (a', effs @ [Emit (makeEvent (''registered '' @ ID_of (reg_ident r)))], Continue))"

fun receive_loop :: "atomizer \<Rightarrow> registration recv list \<Rightarrow> atomizer \<times> effect list \<times> status"
  where
  "receive_loop a [] = (a, [], Waiting)"
| "receive_loop a (r # rs) =
    (case receive_body a r of
       (a', effs, Return) \<Rightarrow> (a', effs, Returned)
     | (a', effs, Continue) \<Rightarrow>
         (case receive_loop a' rs of (a'', effs', st) \<Rightarrow> (a'', effs @ effs', st)))"

definition receive :: "atomizer \<Rightarrow> registration recv list \<Rightarrow> atomizer \<times> effect list \<times> status"
  where
  "receive a rs =
    (if registrations a = None
     then (a, [Emit (Er (Error (Event0\<lparr>Message := ''nil registrations channel''\<rparr>) None))],
           Returned)
     else receive_loop a rs)"

subsection \<open>The conductor adapter\<close>

text \<open>
  One turn of the loop of \<^verbatim>\<open>conduct\<close>: \<open>r\<close> is the outcome of the outer
  \<^verbatim>\<open>select\<close>, \<open>s\<close> the outcome of the inner one (read only when the electron is
  valid), \<open>k\<close> the number of clock readings taken so far. An electron carries the
  validator capability, so \<^verbatim>\<open>validator.Valid(e)\<close> is \<open>Validate e\<close>. On a closed
  receiver \<^verbatim>\<open>e\<close> is the zero electron. The failure record reads the clock twice,
  for \<^verbatim>\<open>Start\<close> and then for \<^verbatim>\<open>End\<close>; its \<^verbatim>\<open>Error\<close> is the error as it is
  before \<^verbatim>\<open>Internal\<close> is assigned.
\<close>

fun conduct_body ::
  "env \<Rightarrow> Conductor \<Rightarrow> nat \<Rightarrow> Electron recv \<Rightarrow> send \<Rightarrow> effect list \<times> nat \<times> ctl" where
  "conduct_body w c k RecvDone s = ([], k, Return)"
| "conduct_body w c k RecvClosed s =
    ([Emit (Er (Error (Event0\<lparr>Message := ''receiver closed'',
                              ElectronID := ID zeroElectron,
                              ConductorID := ID_of c\<rparr>) None))],
     k, Return)"
| "conduct_body w c k (Recv e) s =
    (if \<not> Validate e
     then (let ev = Event0\<lparr>Message := ''invalid electron'', ElectronID := ID e,
                           ConductorID := ID_of c\<rparr>;
               props = \<lparr>ElectronID_P = ID e, AtomID_P = AtomID e,
                        Start = now w k, End = now w (Suc k),
                        Error_P = Some (Error ev None), Result = None\<rparr>
           in ([Pulled e, Complete c props, Emit (Er (Error ev (complete w c props)))],
               Suc (Suc k), Continue))
     else (let received = Emit (Ev \<lparr>Message = ''electron received'', ElectronID = ID e,
                                    AtomID_E = AtomID e, ConductorID = ID_of c\<rparr>)
           in case s of
                SendDone \<Rightarrow> ([Pulled e, received], k, Return)
              | SendOk \<Rightarrow>
                  ([Pulled e, received,
                    Intake \<lparr>electron = e, conductor = Some c\<rparr>,
                    Emit (Ev \<lparr>Message = ''electron distributed'', ElectronID = ID e,
                              AtomID_E = AtomID e, ConductorID = ID_of c\<rparr>)],
                   k, Continue)))"

fun conduct_loop ::
  "env \<Rightarrow> Conductor \<Rightarrow> nat \<Rightarrow> (Electron recv \<times> send) list \<Rightarrow> effect list \<times> status" where
  "conduct_loop w c k [] = ([], Waiting)"
| "conduct_loop w c k ((r, s) # rest) =
    (case conduct_body w c k r s of
       (effs, k', Return) \<Rightarrow> (effs, Returned)
     | (effs, k', Continue) \<Rightarrow>
         (case conduct_loop w c k' rest of (effs', st) \<Rightarrow> (effs @ effs', st)))"

text \<open>
  \<^verbatim>\<open>conduct\<close> takes the conductor's receive stream and runs the loop; the stream is
  the schedule's sequence of received electrons.
\<close>

definition conduct ::
  "env \<Rightarrow> Conductor \<Rightarrow> nat \<Rightarrow> (Electron recv \<times> send) list \<Rightarrow> effect list \<times> status" where
  "conduct w c k sched = conduct_loop w c k sched"

text \<open>The electrons a run pulled from the receiver, and those it sent to the intake.\<close>

fun pulled :: "effect list \<Rightarrow> Electron list" where
  "pulled [] = []"
| "pulled (Pulled e # fs) = e # pulled fs"
| "pulled (f # fs) = pulled fs"

fun forwarded :: "effect list \<Rightarrow> Electron list" where
  "forwarded [] = []"
| "forwarded (Intake i # fs) = electron i # forwarded fs"
| "forwarded (f # fs) = forwarded fs"

fun completions :: "effect list \<Rightarrow> (Conductor \<times> Properties) list" where
  "completions [] = []"
| "completions (Complete c p # fs) = (c, p) # completions fs"
| "completions (f # fs) = completions fs"

fun pushes :: "effect list \<Rightarrow> (nat \<times> inst) list" where
  "pushes [] = []"
| "pushes (Push ch i # fs) = (ch, i) # pushes fs"
| "pushes (f # fs) = pushes fs"

fun started :: "effect list \<Rightarrow> effect list" where
  "started [] = []"
| "started (GoConduct c # fs) = GoConduct c # started fs"
| "started (GoSplit t ch # fs) = GoSplit t ch # started fs"
| "started (f # fs) = started fs"

fun execs :: "effect list \<Rightarrow> (inst \<times> goval) list" where
  "execs [] = []"
| "execs (Exec i v # fs) = (i, v) # execs fs"
| "execs (f # fs) = execs fs"

subsection \<open>Distribution\<close>

text \<open>
  One turn of the loop of \<^verbatim>\<open>distribute\<close> on the routing table as it is when the
  turn looks the atom up. On a closed intake channel \<^verbatim>\<open>inst\<close> is the zero
  instance.
\<close>

fun distribute_body ::
  "env \<Rightarrow> atomizer \<Rightarrow> inst recv \<Rightarrow> send \<Rightarrow> effect list \<times> ctl" where
  "distribute_body w a RecvDone s = ([], Return)"
| "distribute_body w a RecvClosed s =
    ([Emit (Er (Error \<lparr>Message = ''dist channel closed'',
                        ElectronID = ID (electron inst0),
                        AtomID_E = AtomID (electron inst0),
                        ConductorID = ID_opt w (conductor inst0)\<rparr> None))],
     Return)"
| "distribute_body w a (Recv i) s =
    (case atoms a (AtomID (electron i)) of
       None \<Rightarrow>
         ([Emit (Er (Error (Event0\<lparr>Message := ''not registered'',
                                   AtomID_E := AtomID (electron i),
                                   ElectronID := ID (electron i)\<rparr>) None))],
          Continue)
     | Some achan \<Rightarrow>
         (let pushing = Emit (Ev \<lparr>Message = ''pushing electron to atom'',
                                  ElectronID = ID (electron i),
                                  AtomID_E = AtomID (electron i),
                                  ConductorID = ID_opt w (conductor i)\<rparr>)
          in case s of
               SendDone \<Rightarrow> ([pushing], Return)
             | SendOk \<Rightarrow>
                 ([pushing, Push achan i,
                   Emit (Ev \<lparr>Message = ''pushed electron to atom'',
                             ElectronID = ID (electron i),
                             AtomID_E = AtomID (electron i),
                             ConductorID = ID_opt w (conductor i)\<rparr>)],
                  Continue)))"

text \<open>
  The loop: each turn of the schedule comes with the dispatcher as it is at that turn,
  since registrations go on beside the loop.
\<close>

fun distribute ::
  "env \<Rightarrow> (atomizer \<times> inst recv \<times> send) list \<Rightarrow> effect list \<times> status" where
  "distribute w [] = ([], Waiting)"
| "distribute w ((a, r, s) # rest) =
    (case distribute_body w a r s of
       (effs, Return) \<Rightarrow> (effs, Returned)
     | (effs, Continue) \<Rightarrow>
         (case distribute w rest of (effs', st) \<Rightarrow> (effs @ effs', st)))"

subsection \<open>The atom adapter\<close>

text \<open>
  One turn of the loop of \<^verbatim>\<open>_split\<close> for the prototype \<open>t\<close>. The new atom is
  \<^verbatim>\<open>reflect.New(reflect.TypeOf(atom).Elem())\<close>; it is handed to \<^verbatim>\<open>a.exec\<close>,
  whose body is not unfolded here (\<^verbatim>\<open>bond\<close> and \<^verbatim>\<open>execute\<close> are not among the
  sources): the call is an effect, and what it leaves in the atom it was handed is
  \<open>process\<close>.
\<close>

fun split_body ::
  "env \<Rightarrow> Atom \<Rightarrow> store \<Rightarrow> inst recv \<Rightarrow> effect list \<times> store \<times> (panic + ctl)" where
  "split_body w t h RecvDone = ([], h, Inr Return)"
| "split_body w t h RecvClosed =
    ([Emit (Er (Error (Event0\<lparr>Message := ''atom receiver closed'',
                              AtomID_E := ID_of (atomIdent t)\<rparr>) None))],
     h, Inr Return)"
| "split_body w t h (Recv i) =
    (let new_instance = Emit (Ev \<lparr>Message = ''new instance of electron'',
                                  ElectronID = ID (electron i),
                                  AtomID_E = ID_of (atomIdent t),
                                  ConductorID = ID_opt w (conductor i)\<rparr>)
     in case TypeOf_Elem (atomVal t) of
          Inl p \<Rightarrow> ([new_instance], h, Inl p)
        | Inr ty \<Rightarrow>
            (case reflect_New h ty of
               (n, h') \<Rightarrow>
                 ([new_instance, Exec i (PtrV ty n)],
                  h'\<lparr>cells := (cells h')(n \<mapsto> process w i (structZero ty))\<rparr>,
                  Inr Continue)))"

fun split_loop ::
  "env \<Rightarrow> Atom \<Rightarrow> store \<Rightarrow> inst recv list \<Rightarrow> effect list \<times> store \<times> (panic + status)" where
  "split_loop w t h [] = ([], h, Inr Waiting)"
| "split_loop w t h (r # rs) =
    (case split_body w t h r of
       (effs, h', Inl p) \<Rightarrow> (effs, h', Inl p)
     | (effs, h', Inr Return) \<Rightarrow> (effs, h', Inr Returned)
     | (effs, h', Inr Continue) \<Rightarrow>
         (case split_loop w t h' rs of (effs', h'', st) \<Rightarrow> (effs @ effs', h'', st)))"

subsection \<open>The event bus\<close>







section \<open>Concrete values\<close>

text \<open>
  A world whose clock advances by one at each reading, whose conductors complete
  without error and whose atoms leave their fields as they found them; an in-memory
  conductor; a dispatcher with an events consumer and an empty routing table; a
  conductor and an atom that their validator rejects; a counter atom, a pointer to a
  struct with one integer field; a store that holds the counter, its count at 7; and an
  instance for it.
\<close>

definition w0 :: env where
  "w0 = \<lparr>now = int, complete = (\<lambda>c p. None), nilID = [], process = (\<lambda>i fs. fs)\<rparr>"

definition c0 :: Conductor where
  "c0 = \<lparr>typeName = ''mem.Conductor'', explicitID = None, validator = None\<rparr>"

definition a0 :: atomizer where
  "a0 = \<lparr>atoms = Map.empty, events = Some 0, registrations = Some 1, chans = 2\<rparr>"

definition bad_conductor :: Conductor where
  "bad_conductor = \<lparr>typeName = ''mem.Broken'', explicitID = None, validator = Some False\<rparr>"

definition counterT :: structT where
  "counterT = \<lparr>structName = ''atoms.Counter'', structZero = [(''count'', IntV 0)]\<rparr>"

definition counter :: Atom where
  "counter = \<lparr>atomIdent = \<lparr>typeName = ''atoms.Counter'', explicitID = None, validator = None\<rparr>,
              atomVal = PtrV counterT 0\<rparr>"

definition bad_atom :: Atom where
  "bad_atom = \<lparr>atomIdent = \<lparr>typeName = ''atoms.Broken'', explicitID = None,
                             validator = Some False\<rparr>,
               atomVal = PtrV counterT 0\<rparr>"

definition h0 :: store where
  "h0 = \<lparr>cells = [0 \<mapsto> [(''count'', IntV 7)]], nextAddr = 1\<rparr>"

definition i0 :: inst where
  "i0 = \<lparr>electron = noopelectron, conductor = Some c0\<rparr>"




section \<open>Validity of electrons\<close>

lemma validate_tests_pass: "list_all (\<lambda>(e, v). Validate e = v) validate_tests"
  by (simp add: validate_tests_def Validate_def noopelectron_def zeroElectron_def)

text \<open>
  Claim C1. For every Electron the validation predicate holds if and only if its
  \<^verbatim>\<open>SenderID\<close>, \<^verbatim>\<open>ID\<close> and \<^verbatim>\<open>AtomID\<close> are all non-empty, and no other
  field influences validity: whatever payload, timeout and copy-state hint replace the
  electron's own, the verdict is the same.
\<close>

theorem Validate_iff_ids_nonempty:
  "(Validate e \<longleftrightarrow> SenderID e \<noteq> [] \<and> ID e \<noteq> [] \<and> AtomID e \<noteq> [])
   \<and> Validate (e\<lparr>Payload := p, Timeout := t, CopyState := c\<rparr>) = Validate e"
  by (simp add: Validate_def)

section \<open>Invalid electrons in the conductor adapter\<close>

text \<open>
  Claim C3, as the code has it. For every electron that fails validation in the loop of
  \<^verbatim>\<open>conduct\<close>, \<^verbatim>\<open>conductor.Complete\<close> is called exactly once, with a
  \<^verbatim>\<open>Properties\<close> whose \<^verbatim>\<open>Error\<close> is populated and whose \<^verbatim>\<open>Start\<close> and
  \<^verbatim>\<open>End\<close> are two successive readings of the clock, \<^verbatim>\<open>Start\<close> the earlier;
  nothing is forwarded to the intake, and the loop goes on with the rest of the stream.
\<close>

theorem conduct_invalid_electron:
  assumes "\<not> Validate e"
  shows "conduct_body w c k (Recv e) s =
      ([Pulled e,
        Complete c \<lparr>ElectronID_P = ID e, AtomID_P = AtomID e, Start = now w k,
                    End = now w (Suc k),
                    Error_P = Some (Error (Event0\<lparr>Message := ''invalid electron'',
                                ElectronID := ID e, ConductorID := ID_of c\<rparr>) None),
                    Result = None\<rparr>,
        Emit (Er (Error (Event0\<lparr>Message := ''invalid electron'', ElectronID := ID e,
                    ConductorID := ID_of c\<rparr>)
                  (complete w c \<lparr>ElectronID_P = ID e, AtomID_P = AtomID e, Start = now w k,
                    End = now w (Suc k),
                    Error_P = Some (Error (Event0\<lparr>Message := ''invalid electron'',
                                ElectronID := ID e, ConductorID := ID_of c\<rparr>) None),
                    Result = None\<rparr>)))],
       Suc (Suc k), Continue)
    \<and> length (completions (fst (conduct_body w c k (Recv e) s))) = 1
    \<and> forwarded (fst (conduct_body w c k (Recv e) s)) = []
    \<and> conduct_loop w c k ((Recv e, s) # rest) =
        (fst (conduct_body w c k (Recv e) s) @ fst (conduct_loop w c (Suc (Suc k)) rest),
         snd (conduct_loop w c (Suc (Suc k)) rest))"
  using assms by (simp add: Let_def split: prod.splits)

text \<open>The invalid electron of end-to-end scenario 4, on the clock of \<open>w0\<close>.\<close>

theorem conduct_invalid_electron_witness:
  "\<not> Validate (zeroElectron\<lparr>SenderID := ''s''\<rparr>)
   \<and> completions (fst (conduct_body w0 c0 0 (Recv (zeroElectron\<lparr>SenderID := ''s''\<rparr>)) SendOk))
      = [(c0, \<lparr>ElectronID_P = [], AtomID_P = [], Start = 0, End = 1,
               Error_P = Some (Error (Event0\<lparr>Message := ''invalid electron'',
                                ConductorID := ''mem.Conductor''\<rparr>) None),
               Result = None\<rparr>)]
   \<and> snd (conduct_loop w0 c0 0 [(Recv (zeroElectron\<lparr>SenderID := ''s''\<rparr>), SendOk)]) = Waiting"
  using conduct_invalid_electron [of "zeroElectron\<lparr>SenderID := ''s''\<rparr>" w0 c0 0 SendOk "[]"]
  by (simp add: Validate_def zeroElectron_def w0_def c0_def ID_of_def Event0_def)

text \<open>
  \<^verbatim>\<open>Start\<close> and \<^verbatim>\<open>End\<close> come from two calls of \<^verbatim>\<open>time.Now\<close>: on a clock
  that moves between the two they differ.
\<close>

theorem conduct_invalid_start_end_counterexample:
  "\<not> Validate (zeroElectron\<lparr>SenderID := ''s''\<rparr>)
   \<and> map (\<lambda>(c, p). (Start p, End p))
        (completions (fst (conduct_body w0 c0 0 (Recv (zeroElectron\<lparr>SenderID := ''s''\<rparr>)) SendOk)))
      = [(0, 1)]"
  by (simp add: Validate_def zeroElectron_def w0_def Let_def)

section \<open>Unregistered atoms in the distribution loop\<close>

text \<open>
  Claim C4. For every instance taken from the intake channel whose \<^verbatim>\<open>AtomID\<close> is
  not a key of the routing table, the turn of \<^verbatim>\<open>distribute\<close> emits the
  \<^verbatim>\<open>not registered\<close> event and does nothing else: no call of \<^verbatim>\<open>Complete\<close>, no
  send on an atom's channel; and the loop goes on with the next instance.
\<close>

theorem distribute_not_registered:
  assumes "AtomID (electron i) \<notin> dom (atoms a)"
  shows "distribute_body w a (Recv i) s =
      ([Emit (Er (Error (Event0\<lparr>Message := ''not registered'',
                                AtomID_E := AtomID (electron i),
                                ElectronID := ID (electron i)\<rparr>) None))],
       Continue)
    \<and> completions (fst (distribute_body w a (Recv i) s)) = []
    \<and> pushes (fst (distribute_body w a (Recv i) s)) = []
    \<and> distribute w ((a, Recv i, s) # rest) =
        (fst (distribute_body w a (Recv i) s) @ fst (distribute w rest),
         snd (distribute w rest))"
  using assms by (auto simp: domIff split: prod.splits)

text \<open>End-to-end scenario 2: no atom registered, an electron for \<^verbatim>\<open>missing\<close>.\<close>

theorem distribute_not_registered_witness:
  "AtomID (electron \<lparr>electron = zeroElectron\<lparr>SenderID := ''s'', ID := ''e2'', AtomID := ''missing''\<rparr>,
                     conductor = Some c0\<rparr>) \<notin> dom (atoms a0)
   \<and> distribute w0 [(a0, Recv \<lparr>electron = zeroElectron\<lparr>SenderID := ''s'', ID := ''e2'',
                                   AtomID := ''missing''\<rparr>, conductor = Some c0\<rparr>, SendOk)] =
      ([Emit (Er (Error (Event0\<lparr>Message := ''not registered'', AtomID_E := ''missing'',
                                ElectronID := ''e2''\<rparr>) None))],
       Waiting)"
  using distribute_not_registered
    [of "\<lparr>electron = zeroElectron\<lparr>SenderID := ''s'', ID := ''e2'', AtomID := ''missing''\<rparr>,
         conductor = Some c0\<rparr>" a0 w0 SendOk "[]"]
  by (simp add: a0_def zeroElectron_def)

section \<open>Registration\<close>

lemma receiveConductor_invalid:
  "\<not> Valid c \<Longrightarrow> receiveConductor a c =
     (Some (Error (Event0\<lparr>Message := ''invalid conductor'', ConductorID := ID_of c\<rparr>) None), a, [])"
  by (simp add: receiveConductor_def)

lemma receiveAtom_invalid:
  "\<not> Valid (atomIdent t) \<Longrightarrow> receiveAtom a t =
     (Some (Error (Event0\<lparr>Message := ''invalid atom'', AtomID_E := ID_of (atomIdent t)\<rparr>) None),
      a, [])"
  by (simp add: receiveAtom_def)

lemma started_append: "started (xs @ ys) = started xs @ started ys"
  by (induction xs rule: started.induct) simp_all

text \<open>
  Claim C6. For every item drained from the registration channel that fails validation,
  the registration loop emits the \<^verbatim>\<open>invalid registration\<close> event and skips the item:
  the dispatcher is left as it was, so the routing table is unchanged, and neither a
  conductor adapter nor an atom adapter is started. (\<^verbatim>\<open>register\<close> does not return
  after the event; it is \<^verbatim>\<open>receiveConductor\<close> and \<^verbatim>\<open>receiveAtom\<close> that turn the
  item away, and an item that is neither conductor nor atom gets a second event.)
\<close>

theorem register_invalid_skipped:
  assumes "\<not> Valid (reg_ident r)"
  shows "fst (register a r) = a
    \<and> snd (register a r) =
        Emit (Er (simple (''invalid registration '' @ ID_of (reg_ident r)) None)) #
        (case r of
           RegOther v \<Rightarrow> [Emit (Er (simple (''unknown registration type '' @ ID_of v) None))]
         | _ \<Rightarrow> [])
    \<and> started (snd (register a r)) = []
    \<and> receive_body a (Recv r) =
        (a, snd (register a r) @ [Emit (makeEvent (''registered '' @ ID_of (reg_ident r)))],
         Continue)
    \<and> fst (receive_loop a (Recv r # rs)) = fst (receive_loop a rs)
    \<and> started (fst (snd (receive_loop a (Recv r # rs)))) =
        started (fst (snd (receive_loop a rs)))"
proof -
  have reg: "register a r =
      (a, Emit (Er (simple (''invalid registration '' @ ID_of (reg_ident r)) None)) #
          (case r of
             RegOther v \<Rightarrow> [Emit (Er (simple (''unknown registration type '' @ ID_of v) None))]
           | _ \<Rightarrow> []))"
    using assms
    by (cases r) (simp_all add: register_def receiveConductor_invalid receiveAtom_invalid)
  have st: "started (snd (register a r)) = []"
    unfolding reg by (cases r) simp_all
  have body: "receive_body a (Recv r) =
      (a, snd (register a r) @ [Emit (makeEvent (''registered '' @ ID_of (reg_ident r)))],
       Continue)"
    by (simp add: reg)
  have loop: "receive_loop a (Recv r # rs) =
      (fst (receive_loop a rs),
       (snd (register a r) @ [Emit (makeEvent (''registered '' @ ID_of (reg_ident r)))])
         @ fst (snd (receive_loop a rs)),
       snd (snd (receive_loop a rs)))"
    unfolding receive_loop.simps body by (simp split: prod.splits)
  show ?thesis
    using reg st body
    by (simp add: loop started_append del: receive_loop.simps receive_body.simps)
qed

theorem register_invalid_skipped_witness:
  "\<not> Valid (reg_ident (RegConductor bad_conductor))
   \<and> register a0 (RegConductor bad_conductor) =
       (a0, [Emit (Er (simple ''invalid registration mem.Broken'' None))])
   \<and> receive_loop a0 [Recv (RegConductor bad_conductor)] =
       (a0, [Emit (Er (simple ''invalid registration mem.Broken'' None)),
             Emit (makeEvent ''registered mem.Broken'')], Waiting)"
  using register_invalid_skipped [of "RegConductor bad_conductor" a0 "[]"]
  by (simp add: bad_conductor_def Valid_def ID_of_def register_def receiveConductor_def)

text \<open>
  Claim C7. The routing table is a map, so an \<^verbatim>\<open>AtomID\<close> has at most one channel.
  Registering a valid atom makes a new channel, starts the adapter on it and stores it
  under the atom's identifier: the table then holds the identifier, every other key is
  as before, and a channel that was stored under the identifier is replaced by the new
  one.
\<close>

theorem receiveAtom_routing:
  assumes "Valid (atomIdent t)"
  shows "receiveAtom a t =
      (None,
       a\<lparr>chans := Suc (chans a), atoms := (atoms a)(ID_of (atomIdent t) \<mapsto> chans a)\<rparr>,
       [GoSplit t (chans a),
        Emit (Ev (Event0\<lparr>Message := ''registered electron channel'',
                         AtomID_E := ID_of (atomIdent t)\<rparr>))])
    \<and> atoms (fst (snd (receiveAtom a t))) (ID_of (atomIdent t)) = Some (chans a)
    \<and> dom (atoms (fst (snd (receiveAtom a t)))) = insert (ID_of (atomIdent t)) (dom (atoms a))
    \<and> (\<forall>k. k \<noteq> ID_of (atomIdent t) \<longrightarrow> atoms (fst (snd (receiveAtom a t))) k = atoms a k)
    \<and> (\<forall>ch. atoms a (ID_of (atomIdent t)) = Some ch \<longrightarrow> ch < chans a \<longrightarrow>
          atoms (fst (snd (receiveAtom a t))) (ID_of (atomIdent t)) \<noteq> Some ch)"
  using assms by (auto simp: receiveAtom_def split_def)

text \<open>The counter atom registered a second time: channel 1 gives way to channel 2.\<close>

theorem receiveAtom_routing_witness:
  "Valid (atomIdent counter)
   \<and> atoms (fst (snd (receiveAtom (a0\<lparr>atoms := [''atoms.Counter'' \<mapsto> 1]\<rparr>) counter)))
       ''atoms.Counter'' = Some 2
   \<and> atoms (a0\<lparr>atoms := [''atoms.Counter'' \<mapsto> 1]\<rparr>) ''atoms.Counter'' = Some 1
   \<and> dom (atoms (fst (snd (receiveAtom (a0\<lparr>atoms := [''atoms.Counter'' \<mapsto> 1]\<rparr>) counter))))
       = {''atoms.Counter''}"
  using receiveAtom_routing [of counter "a0\<lparr>atoms := [''atoms.Counter'' \<mapsto> 1]\<rparr>"]
  by (simp add: counter_def Valid_def ID_of_def a0_def)

text \<open>
  Claim C10. \<^verbatim>\<open>receiveConductor\<close> and \<^verbatim>\<open>receiveAtom\<close> return an error if and only
  if the validator rejects the conductor or the atom, and then the dispatcher is
  unchanged and nothing is started: no goroutine, no new entry of the routing table.
\<close>

theorem receive_error_iff_invalid:
  "(fst (receiveConductor a c) \<noteq> None \<longleftrightarrow> \<not> Valid c)
   \<and> (\<not> Valid c \<longrightarrow>
        fst (snd (receiveConductor a c)) = a \<and> snd (snd (receiveConductor a c)) = [])
   \<and> (fst (receiveAtom a t) \<noteq> None \<longleftrightarrow> \<not> Valid (atomIdent t))
   \<and> (\<not> Valid (atomIdent t) \<longrightarrow>
        fst (snd (receiveAtom a t)) = a \<and> snd (snd (receiveAtom a t)) = [])"
  by (simp add: receiveConductor_def receiveAtom_def split_def)

theorem receive_error_iff_invalid_witness:
  "\<not> Valid bad_conductor \<and> \<not> Valid (atomIdent bad_atom)
   \<and> receiveConductor a0 bad_conductor =
       (Some (Error (Event0\<lparr>Message := ''invalid conductor'', ConductorID := ''mem.Broken''\<rparr>)
                None), a0, [])
   \<and> receiveAtom a0 bad_atom =
       (Some (Error (Event0\<lparr>Message := ''invalid atom'', AtomID_E := ''atoms.Broken''\<rparr>) None),
        a0, [])
   \<and> fst (receiveConductor a0 c0) = None \<and> fst (receiveAtom a0 counter) = None"
  using receive_error_iff_invalid [of a0 bad_conductor bad_atom]
    receive_error_iff_invalid [of a0 c0 counter]
  by (simp add: bad_conductor_def bad_atom_def counter_def c0_def Valid_def ID_of_def
      receiveConductor_def receiveAtom_def)

section \<open>Order of forwarding\<close>

lemma pulled_append: "pulled (xs @ ys) = pulled xs @ pulled ys"
  by (induction xs rule: pulled.induct) simp_all

lemma forwarded_append: "forwarded (xs @ ys) = forwarded xs @ forwarded ys"
  by (induction xs rule: forwarded.induct) simp_all

lemma conduct_loop_forwarded:
  "forwarded (fst (conduct_loop w c k sched)) = filter Validate (pulled (fst (conduct_loop w c k sched)))
   \<or> (\<exists>e. Validate e \<and> snd (conduct_loop w c k sched) = Returned
        \<and> filter Validate (pulled (fst (conduct_loop w c k sched)))
            = forwarded (fst (conduct_loop w c k sched)) @ [e])"
proof (induction sched arbitrary: k)
  case Nil
  then show ?case by simp
next
  case (Cons x sched)
  obtain r s where x: "x = (r, s)" by (cases x)
  show ?case
  proof (cases r)
    case RecvDone
    then show ?thesis by (simp add: x)
  next
    case RecvClosed
    then show ?thesis by (simp add: x)
  next
    case (Recv e)
    show ?thesis
    proof (cases "Validate e")
      case False
      with Cons.IH [of "Suc (Suc k)"] show ?thesis
        by (simp add: x Recv Let_def pulled_append forwarded_append case_prod_beta)
    next
      case True
      show ?thesis
      proof (cases s)
        case SendDone
        with True show ?thesis by (auto simp: x Recv)
      next
        case SendOk
        with True Cons.IH [of k] show ?thesis
          by (simp add: x Recv Let_def pulled_append forwarded_append case_prod_beta)
      qed
    qed
  qed
qed

lemma conduct_loop_all_sent:
  "list_all (\<lambda>(r, s). s = SendOk) sched \<Longrightarrow>
   forwarded (fst (conduct_loop w c k sched)) = filter Validate (pulled (fst (conduct_loop w c k sched)))"
proof (induction sched arbitrary: k)
  case Nil
  then show ?case by simp
next
  case (Cons x sched)
  obtain r s where x: "x = (r, s)" by (cases x)
  from Cons.prems have s: "s = SendOk" and rest: "list_all (\<lambda>(r, s). s = SendOk) sched"
    by (simp_all add: x)
  show ?case
  proof (cases r)
    case RecvDone
    then show ?thesis by (simp add: x)
  next
    case RecvClosed
    then show ?thesis by (simp add: x)
  next
    case (Recv e)
    show ?thesis
      using Cons.IH [OF rest, of k] Cons.IH [OF rest, of "Suc (Suc k)"]
      by (cases "Validate e")
         (simp_all add: x s Recv Let_def pulled_append forwarded_append case_prod_beta)
  qed
qed

text \<open>
  Claim C9, as the code has it. For a single conductor, the electrons forwarded onto the
  intake channel are valid electrons pulled from the receive stream, in receive order:
  the forwarded sequence is a prefix of the valid electrons pulled, short of it by at
  most the last one, and equal to it when no forward is cut off by the dispatcher's
  cancellation.
\<close>

theorem conduct_forwards_in_order:
  "subseq (forwarded (fst (conduct w c k sched))) (pulled (fst (conduct w c k sched)))
   \<and> prefix (forwarded (fst (conduct w c k sched)))
        (filter Validate (pulled (fst (conduct w c k sched))))
   \<and> length (filter Validate (pulled (fst (conduct w c k sched))))
        \<le> Suc (length (forwarded (fst (conduct w c k sched))))
   \<and> (list_all (\<lambda>(r, s). s = SendOk) sched \<longrightarrow>
        forwarded (fst (conduct w c k sched))
          = filter Validate (pulled (fst (conduct w c k sched))))"
proof -
  let ?F = "forwarded (fst (conduct_loop w c k sched))"
  let ?P = "pulled (fst (conduct_loop w c k sched))"
  have pre: "prefix ?F (filter Validate ?P)" and len: "length (filter Validate ?P) \<le> Suc (length ?F)"
    using conduct_loop_forwarded [of w c k sched] by auto
  have "subseq ?F (filter Validate ?P)"
    using pre by (rule prefix_imp_subseq)
  then have sub: "subseq ?F ?P"
    using subseq_filter_left subseq_order.order_trans by blast
  show ?thesis
    unfolding conduct_def using pre len sub conduct_loop_all_sent [of sched w c k] by simp
qed

theorem conduct_forwards_in_order_witness:
  "list_all (\<lambda>(r, s). s = SendOk)
     [(Recv noopelectron, SendOk), (Recv zeroElectron, SendOk),
      (Recv (noopelectron\<lparr>ID := ''e2''\<rparr>), SendOk)]
   \<and> forwarded (fst (conduct w0 c0 0
        [(Recv noopelectron, SendOk), (Recv zeroElectron, SendOk),
         (Recv (noopelectron\<lparr>ID := ''e2''\<rparr>), SendOk)]))
      = [noopelectron, noopelectron\<lparr>ID := ''e2''\<rparr>]
   \<and> pulled (fst (conduct w0 c0 0
        [(Recv noopelectron, SendOk), (Recv zeroElectron, SendOk),
         (Recv (noopelectron\<lparr>ID := ''e2''\<rparr>), SendOk)]))
      = [noopelectron, zeroElectron, noopelectron\<lparr>ID := ''e2''\<rparr>]"
  using conduct_forwards_in_order [of w0 c0 0
        "[(Recv noopelectron, SendOk), (Recv zeroElectron, SendOk),
         (Recv (noopelectron\<lparr>ID := ''e2''\<rparr>), SendOk)]"]
  by (simp add: conduct_def Validate_def noopelectron_def zeroElectron_def Let_def)

text \<open>
  A valid electron is pulled, the dispatcher is cancelled while the forward is pending:
  \<^verbatim>\<open>conduct\<close> returns and the electron is not forwarded.
\<close>

theorem conduct_cancelled_forward_counterexample:
  "Validate noopelectron
   \<and> pulled (fst (conduct w0 c0 0 [(Recv noopelectron, SendDone)])) = [noopelectron]
   \<and> forwarded (fst (conduct w0 c0 0 [(Recv noopelectron, SendDone)])) = []"
  by (simp add: conduct_def Validate_def noopelectron_def zeroElectron_def)

section \<open>The atom handed to the executor\<close>

lemma execs_append: "execs (xs @ ys) = execs xs @ execs ys"
  by (induction xs rule: execs.induct) simp_all

lemma split_body_ptr:
  "atomVal t = PtrV ty p \<Longrightarrow>
   split_body w t h (Recv i) =
     ([Emit (Ev \<lparr>Message = ''new instance of electron'', ElectronID = ID (electron i),
                 AtomID_E = ID_of (atomIdent t), ConductorID = ID_opt w (conductor i)\<rparr>),
       Exec i (PtrV ty (nextAddr h))],
      h\<lparr>cells := (cells h)(nextAddr h \<mapsto> process w i (structZero ty)),
        nextAddr := Suc (nextAddr h)\<rparr>,
      Inr Continue)"
  by (simp add: reflect_New_def)

lemma split_loop_execs:
  "atomVal t = PtrV ty p \<Longrightarrow>
   map snd (execs (fst (split_loop w t h rs)))
     = map (PtrV ty) [nextAddr h ..< nextAddr h + length (execs (fst (split_loop w t h rs)))]"
proof (induction rs arbitrary: h)
  case Nil
  then show ?case by simp
next
  case (Cons r rs)
  show ?case
  proof (cases r)
    case RecvDone
    then show ?thesis by simp
  next
    case RecvClosed
    then show ?thesis by simp
  next
    case (Recv i)
    let ?h = "h\<lparr>cells := (cells h)(nextAddr h \<mapsto> process w i (structZero ty)),
               nextAddr := Suc (nextAddr h)\<rparr>"
    have "map snd (execs (fst (split_loop w t ?h rs)))
        = map (PtrV ty) [Suc (nextAddr h) ..<
            Suc (nextAddr h) + length (execs (fst (split_loop w t ?h rs)))]"
      using Cons.IH [OF Cons.prems, of ?h] by simp
    moreover have "\<And>n. [nextAddr h ..< nextAddr h + Suc n]
        = nextAddr h # [Suc (nextAddr h) ..< Suc (nextAddr h) + n]"
      by (simp add: upt_conv_Cons)
    ultimately show ?thesis
      by (simp add: Recv split_body_ptr [OF Cons.prems] case_prod_beta execs_append
          del: split_body.simps upt_Suc)
  qed
qed

lemma split_loop_keeps:
  "atomVal t = PtrV ty p \<Longrightarrow> q < nextAddr h \<Longrightarrow>
   cells (fst (snd (split_loop w t h rs))) q = cells h q
   \<and> nextAddr h \<le> nextAddr (fst (snd (split_loop w t h rs)))"
proof (induction rs arbitrary: h)
  case Nil
  then show ?case by simp
next
  case (Cons r rs)
  show ?case
  proof (cases r)
    case RecvDone
    then show ?thesis by simp
  next
    case RecvClosed
    then show ?thesis by simp
  next
    case (Recv i)
    let ?h = "h\<lparr>cells := (cells h)(nextAddr h \<mapsto> process w i (structZero ty)),
               nextAddr := Suc (nextAddr h)\<rparr>"
    have "q < nextAddr ?h" using Cons.prems(2) by simp
    from Cons.IH [OF Cons.prems(1) this] Cons.prems(2) show ?thesis
      by (simp add: Recv split_body_ptr [OF Cons.prems(1)] case_prod_beta
          del: split_body.simps)
  qed
qed

text \<open>
  Claim C5, as the code has it. For every instance received by the adapter of a
  prototype that is a pointer to a struct, the atom handed to the executor is a freshly
  allocated zero value of the prototype's struct type: at an address that was not
  allocated before, so never the prototype itself, and with every field at its zero
  value whatever the prototype's fields hold. The prototype is left as it was, and the
  atoms handed out in a run of the adapter are pairwise distinct, so what one invocation
  writes to its atom is not observable from another.
\<close>

theorem split_hands_fresh_zero_atom:
  assumes "atomVal t = PtrV ty p" and "store_ok h" and "p \<in> dom (cells h)"
  shows "split_body w t h (Recv i) =
      ([Emit (Ev \<lparr>Message = ''new instance of electron'', ElectronID = ID (electron i),
                  AtomID_E = ID_of (atomIdent t), ConductorID = ID_opt w (conductor i)\<rparr>),
        Exec i (PtrV ty (nextAddr h))],
       h\<lparr>cells := (cells h)(nextAddr h \<mapsto> process w i (structZero ty)),
         nextAddr := Suc (nextAddr h)\<rparr>,
       Inr Continue)
    \<and> nextAddr h \<notin> dom (cells h) \<and> nextAddr h \<noteq> p
    \<and> cells (snd (reflect_New h ty)) (nextAddr h) = Some (structZero ty)
    \<and> cells (fst (snd (split_body w t h (Recv i)))) p = cells h p
    \<and> store_ok (fst (snd (split_body w t h (Recv i))))
    \<and> distinct (map snd (execs (fst (split_loop w t h rs))))
    \<and> PtrV ty p \<notin> set (map snd (execs (fst (split_loop w t h rs))))
    \<and> cells (fst (snd (split_loop w t h rs))) p = cells h p"
proof -
  from assms(2,3) have p: "p < nextAddr h" and fresh: "nextAddr h \<notin> dom (cells h)"
    by (auto simp: store_ok_def)
  have body: "split_body w t h (Recv i) =
      ([Emit (Ev \<lparr>Message = ''new instance of electron'', ElectronID = ID (electron i),
                  AtomID_E = ID_of (atomIdent t), ConductorID = ID_opt w (conductor i)\<rparr>),
        Exec i (PtrV ty (nextAddr h))],
       h\<lparr>cells := (cells h)(nextAddr h \<mapsto> process w i (structZero ty)),
         nextAddr := Suc (nextAddr h)\<rparr>,
       Inr Continue)"
    by (rule split_body_ptr [OF assms(1)])
  have ok: "store_ok (h\<lparr>cells := (cells h)(nextAddr h \<mapsto> process w i (structZero ty)),
         nextAddr := Suc (nextAddr h)\<rparr>)"
    using assms(2) by (auto simp: store_ok_def less_Suc_eq)
  have inj: "inj (PtrV ty)" by (simp add: inj_def)
  have dist: "distinct (map snd (execs (fst (split_loop w t h rs))))"
    unfolding split_loop_execs [OF assms(1)] by (simp add: distinct_map inj inj_on_def)
  have notp: "PtrV ty p \<notin> set (map snd (execs (fst (split_loop w t h rs))))"
    unfolding split_loop_execs [OF assms(1)] using p by auto
  show ?thesis
    unfolding body using p fresh ok dist notp split_loop_keeps [OF assms(1) p, of w rs]
    by (simp add: reflect_New_def)
qed

theorem split_hands_fresh_zero_atom_witness:
  "atomVal counter = PtrV counterT 0 \<and> store_ok h0 \<and> 0 \<in> dom (cells h0)
   \<and> execs (fst (split_body w0 counter h0 (Recv i0))) = [(i0, PtrV counterT 1)]
   \<and> cells (snd (reflect_New h0 counterT)) 1 = Some [(''count'', IntV 0)]
   \<and> map snd (execs (fst (split_loop w0 counter h0 [Recv i0, Recv i0])))
       = [PtrV counterT 1, PtrV counterT 2]"
  using split_hands_fresh_zero_atom [of counter counterT 0 h0 w0 i0 "[Recv i0, Recv i0]"]
  by (simp add: counter_def counterT_def h0_def store_ok_def reflect_New_def)

text \<open>
  The prototype's count is 7; the atom handed to the executor has count 0: it is no
  clone of the prototype.
\<close>

theorem split_atom_not_clone_counterexample:
  "atomVal counter = PtrV counterT 0
   \<and> cells h0 0 = Some [(''count'', IntV 7)]
   \<and> execs (fst (split_body w0 counter h0 (Recv i0))) = [(i0, PtrV counterT 1)]
   \<and> cells (snd (reflect_New h0 counterT)) 1 = Some [(''count'', IntV 0)]
   \<and> cells (fst (snd (split_body w0 counter h0 (Recv i0)))) 1 = Some [(''count'', IntV 0)]"
  by (simp add: counter_def counterT_def h0_def reflect_New_def w0_def)

section \<open>Event emission\<close>







section \<open>Round trip through the wire format\<close>

lemma byte_lt: "byte c < 256"
  by (simp add: byte_def)

lemma char_of_byte: "char_of (byte c) = c"
  by (simp add: byte_def)

lemma dec_enc: "n < 64 \<Longrightarrow> dec (enc n) = Some n"
  by (auto simp: dec_def enc_def byte_def)

lemma enc_not_pad: "n < 64 \<Longrightarrow> enc n \<noteq> CHR ''=''"
proof
  assume n: "n < 64" and "enc n = CHR ''=''"
  then have "byte (enc n) = 61" by (simp add: byte_def)
  with n show False by (auto simp: enc_def byte_def split: if_splits)
qed

lemma sextets:
  fixes A B C :: nat
  assumes "A < 256" "B < 256" "C < 256"
  shows "A div 4 < 64" "A mod 4 * 16 + B div 16 < 64" "B mod 16 * 4 + C div 64 < 64"
    "C mod 64 < 64" "A mod 4 * 16 < 64" "B mod 16 * 4 < 64"
  using assms by auto

lemma div_mod_16:
  fixes x y :: nat
  assumes "y < 16"
  shows "(x * 16 + y) div 16 = x" "(x * 16 + y) mod 16 = y"
  using assms by simp_all

lemma div_mod_4:
  fixes x y :: nat
  assumes "y < 4"
  shows "(x * 4 + y) div 4 = x" "(x * 4 + y) mod 4 = y"
  using assms by simp_all

lemma octet1: fixes A B :: nat assumes "B < 256"
  shows "A div 4 * 4 + (A mod 4 * 16 + B div 16) div 16 = A"
proof -
  have "B div 16 < 16" using assms by simp
  then have "(A mod 4 * 16 + B div 16) div 16 = A mod 4" by (rule div_mod_16)
  then show ?thesis by simp
qed

lemma octet2: fixes A B C :: nat assumes "B < 256" "C < 256"
  shows "(A mod 4 * 16 + B div 16) mod 16 * 16 + (B mod 16 * 4 + C div 64) div 4 = B"
proof -
  have b: "B div 16 < 16" and c: "C div 64 < 4" using assms by simp_all
  have "(A mod 4 * 16 + B div 16) mod 16 = B div 16" using b by (rule div_mod_16)
  moreover have "(B mod 16 * 4 + C div 64) div 4 = B mod 16" using c by (rule div_mod_4)
  ultimately show ?thesis by simp
qed

lemma octet3: fixes B C :: nat assumes "C < 256"
  shows "(B mod 16 * 4 + C div 64) mod 4 * 64 + C mod 64 = C"
proof -
  have c: "C div 64 < 4" using assms by simp
  have "(B mod 16 * 4 + C div 64) mod 4 = C div 64" using c by (rule div_mod_4)
  then show ?thesis by simp
qed

lemma octet1_padded: fixes A :: nat shows "A div 4 * 4 + (A mod 4 * 16) div 16 = A"
  by simp

lemma octet2_padded: fixes A B :: nat assumes "B < 256"
  shows "(A mod 4 * 16 + B div 16) mod 16 * 16 + (B mod 16 * 4) div 4 = B"
proof -
  have b: "B div 16 < 16" using assms by simp
  have "(A mod 4 * 16 + B div 16) mod 16 = B div 16" using b by (rule div_mod_16)
  then show ?thesis by simp
qed


lemma b64decode_quantum:
  assumes "q1 < 64" "q2 < 64" "q3 < 64" "q4 < 64"
  shows "b64decode (enc q1 # enc q2 # enc q3 # enc q4 # rest) =
    (case b64decode rest of
       Some bs \<Rightarrow> Some (char_of (q1 * 4 + q2 div 16) # char_of (q2 mod 16 * 16 + q3 div 4)
                         # char_of (q3 mod 4 * 64 + q4) # bs)
     | None \<Rightarrow> None)"
  using assms by (simp add: dec_enc enc_not_pad)

lemma b64decode_pad1:
  assumes "q1 < 64" "q2 < 64" "q3 < 64"
  shows "b64decode [enc q1, enc q2, enc q3, CHR ''=''] =
    Some [char_of (q1 * 4 + q2 div 16), char_of (q2 mod 16 * 16 + q3 div 4)]"
  using assms by (simp add: dec_enc enc_not_pad)

lemma b64decode_pad2:
  assumes "q1 < 64" "q2 < 64"
  shows "b64decode [enc q1, enc q2, CHR ''='', CHR ''=''] = Some [char_of (q1 * 4 + q2 div 16)]"
  using assms by (simp add: dec_enc)

lemma b64decode_b64encode: "b64decode (b64encode bs) = Some bs"
proof (induction bs rule: b64encode.induct)
  case 1
  then show ?case by simp
next
  case (2 a)
  have "b64decode (b64encode [a]) = Some [char_of (byte a div 4 * 4 + (byte a mod 4 * 16) div 16)]"
    unfolding b64encode.simps
    by (rule b64decode_pad2) (use sextets [OF byte_lt [of a] byte_lt [of a] byte_lt [of a]] in simp_all)
  then show ?case by (simp only: octet1_padded char_of_byte)
next
  case (3 a b)
  have "b64decode (b64encode [a, b]) =
      Some [char_of (byte a div 4 * 4 + (byte a mod 4 * 16 + byte b div 16) div 16),
            char_of ((byte a mod 4 * 16 + byte b div 16) mod 16 * 16 + (byte b mod 16 * 4) div 4)]"
    unfolding b64encode.simps
    by (rule b64decode_pad1) (use sextets [OF byte_lt [of a] byte_lt [of b] byte_lt [of b]] in simp_all)
  then show ?case by (simp only: octet1 [OF byte_lt] octet2_padded [OF byte_lt] char_of_byte)
next
  case (4 a b c rest)
  have "b64decode (b64encode (a # b # c # rest)) =
      (case b64decode (b64encode rest) of
         Some bs \<Rightarrow>
           Some (char_of (byte a div 4 * 4 + (byte a mod 4 * 16 + byte b div 16) div 16)
             # char_of ((byte a mod 4 * 16 + byte b div 16) mod 16 * 16
                         + (byte b mod 16 * 4 + byte c div 64) div 4)
             # char_of ((byte b mod 16 * 4 + byte c div 64) mod 4 * 64 + byte c mod 64) # bs)
       | None \<Rightarrow> None)"
    unfolding b64encode.simps append_Cons append_Nil
    by (rule b64decode_quantum) (use sextets [OF byte_lt [of a] byte_lt [of b] byte_lt [of c]] in simp_all)
  then show ?case
    by (simp only: "4.IH" option.case octet1 [OF byte_lt] octet2 [OF byte_lt byte_lt] octet3 [OF byte_lt]
        char_of_byte)
qed

text \<open>
  The rows of \<^verbatim>\<open>TestElectron_MarshalJSON\<close> and of
  \<^verbatim>\<open>TestElectron_UnmarshalJSON\<close>, on the objects their JSON texts denote. (The
  fourth row of the latter, a text that is no JSON, fails in \<^verbatim>\<open>encoding/json\<close>
  before any field is read.)
\<close>

lemma json_valid_pay: "json_valid pay"
  by (simp add: pay_def json_valid_def begin_value_def end_value_def ws_def byte_def
      value_done_def)

lemma b64decode_pay64Encoded: "b64decode pay64Encoded = Some pay"
  by code_simp

lemma b64encode_pay: "b64encode pay = pay64Encoded"
  by code_simp

lemma marshal_tests_pass:
  "MarshalJSON noopelectron = noop_wire
   \<and> MarshalJSON nonb64 = noop_wire\<lparr>payload := Some pay\<rparr>"
  using json_valid_pay
  by (simp add: MarshalJSON_def noop_wire_def nonb64_def noopelectron_def zeroElectron_def
      encode_payload_def) (simp add: pay_def)

lemma unmarshal_tests_pass:
  "UnmarshalJSON noop_wire = noopelectron
   \<and> UnmarshalJSON (noop_wire\<lparr>payload := Some pay\<rparr>) = nonb64
   \<and> UnmarshalJSON (noop_wire\<lparr>payload := Some (quote pay64Encoded)\<rparr>) = nonb64"
proof -
  have 1: "base64_string pay = None"
    by (simp add: base64_string_def unquote_def pay_def)
  have 2: "base64_string (quote pay64Encoded) = Some pay"
    by (simp add: base64_string_def unquote_def quote_def b64decode_pay64Encoded)
  show ?thesis
    by (simp add: UnmarshalJSON_def noop_wire_def nonb64_def noopelectron_def zeroElectron_def
        decode_payload_def 1 2)
qed

lemma base64_string_quote: "base64_string (quote (b64encode p)) = Some p"
  by (simp add: base64_string_def unquote_def quote_def b64decode_b64encode)

text \<open>
  Claim C2, as the model has it. A payload written as a base64 string is recovered
  whatever its bytes; a payload written as an embedded JSON value is recovered when it
  is not itself a base64 string; and decoding the encoding of an electron yields the
  electron whenever its payload is not both valid JSON and a base64 string.
\<close>

theorem payload_round_trip:
  "decode_payload (Some (quote (b64encode p))) = p
   \<and> (base64_string p = None \<longrightarrow> decode_payload (Some p) = p)
   \<and> (base64_string (Payload e) = None \<or> \<not> json_valid (Payload e) \<longrightarrow>
        UnmarshalJSON (MarshalJSON e) = e)"
proof -
  have a: "decode_payload (Some (quote (b64encode p))) = p" for p
    by (simp add: decode_payload_def base64_string_quote)
  have b: "decode_payload (Some p) = p" if "base64_string p = None" for p
    using that by (simp add: decode_payload_def)
  have c: "decode_payload (encode_payload p) = p"
    if "base64_string p = None \<or> \<not> json_valid p" for p
    using that a [of p] b [of p] by (auto simp: encode_payload_def decode_payload_def)
  show ?thesis
    using a b c [of "Payload e"] by (simp add: UnmarshalJSON_def MarshalJSON_def)
qed

theorem payload_round_trip_witness:
  "base64_string (Payload nonb64) = None
   \<and> UnmarshalJSON (MarshalJSON nonb64) = nonb64
   \<and> decode_payload (Some pay) = pay
   \<and> decode_payload (Some (quote (b64encode pay))) = pay"
  using payload_round_trip [of pay nonb64]
  by (simp add: nonb64_def base64_string_def unquote_def pay_def)

text \<open>
  A payload that is a JSON string with base64 content: it is valid JSON, so it is
  written verbatim, and it is a base64 string, so it is decoded on the way back. The six
  bytes \<^verbatim>\<open>"aGk="\<close> come back as the two bytes \<^verbatim>\<open>hi\<close>.
\<close>

theorem base64_looking_payload_counterexample:
  "json_valid ''\"aGk=\"''
   \<and> Payload (UnmarshalJSON (MarshalJSON (noopelectron\<lparr>Payload := ''\"aGk=\"''\<rparr>))) = ''hi''
   \<and> decode_payload (Some ''\"aGk=\"'') = ''hi''"
proof -
  have v: "json_valid ''\"aGk=\"''"
    by (simp add: json_valid_def begin_value_def end_value_def ws_def byte_def value_done_def)
  have d: "decode_payload (Some ''\"aGk=\"'') = ''hi''"
    by code_simp
  show ?thesis
    using v d by (simp add: MarshalJSON_def UnmarshalJSON_def encode_payload_def)
qed

end
